theory Spec2Isabelle
  imports Main "HOL-Library.Word"
begin

section \<open>PeerWire: signalling logic of assets/js/app.js\<close>

text \<open>
  The class \<^verbatim>\<open>PeerWire\<close> of \<^verbatim>\<open>assets/js/app.js\<close> (the documented revision with the
  chat data channel; the earlier revision in the same file differs only by the absence of
  the data-channel lines) is embedded as functions on an explicit record of the fields
  of \<^verbatim>\<open>this\<close>. What the class calls but does not implement is the browser: the
  ECMAScript coercions and the \<^verbatim>\<open>RTCPeerConnection\<close> object. The browser is a parameter,
  a record of functions giving the outcome of each operation; the broker is represented by
  the list of payloads handed to \<^verbatim>\<open>mqttClient.publish\<close>.

  Each event handler is run to completion before the next event is delivered: the
  promises awaited inside a handler have settled when the next event arrives.
\<close>

subsection \<open>JavaScript values\<close>

text \<open>A JavaScript string is a sequence of UTF-16 code units.\<close>

type_synonym js_string = "16 word list"

definition utf16 :: "string \<Rightarrow> js_string" where
  "utf16 s = map (\<lambda>c. of_nat (of_char c)) s"

text \<open>
  \<^verbatim>\<open>a < b\<close> on two strings: the shorter one is smaller when it is a prefix of the other,
  otherwise the code units at the first differing position decide.
\<close>

fun js_string_lt :: "js_string \<Rightarrow> js_string \<Rightarrow> bool" where
  "js_string_lt [] [] = False"
| "js_string_lt [] (y # ys) = True"
| "js_string_lt (x # xs) [] = False"
| "js_string_lt (x # xs) (y # ys) = (if x = y then js_string_lt xs ys else x < y)"

text \<open>The values \<^verbatim>\<open>JSON.parse\<close> returns, and \<^verbatim>\<open>undefined\<close> for an absent property.\<close>

datatype js_value =
    Undefined
  | Null
  | Boolean bool
  | Number int
  | String js_string
  | Array "js_value list"
  | Object "(js_string \<times> js_value) list"

datatype js_error = SyntaxError | TypeError | DOMException string

text \<open>
  How a handler ends: it returns, it throws out of the callback, or it returns while a
  promise it started is rejected and nobody handles the rejection.
\<close>

datatype outcome = Returned | Threw js_error | Rejected js_error

text \<open>
  \<^verbatim>\<open>v.k\<close> for one of the keys \<^verbatim>\<open>sender\<close>, \<^verbatim>\<open>type\<close>, \<^verbatim>\<open>data\<close>, on a value that is
  neither \<^verbatim>\<open>null\<close> nor \<^verbatim>\<open>undefined\<close> (there the access throws, see \<open>on_message\<close>):
  an object gives its own property, everything else has no such property.
\<close>

definition property :: "js_value \<Rightarrow> string \<Rightarrow> js_value" where
  "property v k =
     (case v of
        Object kvs \<Rightarrow> (case map_of kvs (utf16 k) of Some x \<Rightarrow> x | None \<Rightarrow> Undefined)
      | _ \<Rightarrow> Undefined)"

subsection \<open>The browser\<close>

type_synonym track = nat

datatype pc_call =
    CreateDataChannel js_string
  | AddTrack track
  | CreateOffer js_value
  | CreateAnswer js_value
  | SetLocalDescription js_value
  | SetRemoteDescription js_value
  | AddIceCandidate js_value

text \<open>
  The browser's part in a handler. \<open>toString\<close> and \<open>greaterThan\<close> are the coercions
  of a template literal and of \<^verbatim>\<open>clientId > v\<close> for a \<open>v\<close> that is not a string
  (\<open>Inl\<close> when the coercion throws). The other five are the asynchronous operations of
  an \<^verbatim>\<open>RTCPeerConnection\<close>, as functions of the operations that have completed on the
  connection so far: the description a creation resolves to, or the error a promise is
  rejected with. The constructors \<^verbatim>\<open>RTCSessionDescription\<close> and \<^verbatim>\<open>RTCIceCandidate\<close>
  are part of the operation they feed.
\<close>

record browser =
  toString :: "js_value \<Rightarrow> js_error + js_string"
  greaterThan :: "js_string \<Rightarrow> js_value \<Rightarrow> js_error + bool"
  createOffer :: "pc_call list \<Rightarrow> js_error + js_value"
  createAnswer :: "pc_call list \<Rightarrow> js_error + js_value"
  setLocalDescription :: "pc_call list \<Rightarrow> js_value \<Rightarrow> js_error option"
  setRemoteDescription :: "pc_call list \<Rightarrow> js_value \<Rightarrow> js_error option"
  addIceCandidate :: "pc_call list \<Rightarrow> js_value \<Rightarrow> js_error option"

text \<open>\<^verbatim>\<open>`${v}`\<close> and \<^verbatim>\<open>a > v\<close>: on strings they are fixed by the language.\<close>

definition template :: "browser \<Rightarrow> js_value \<Rightarrow> js_error + js_string" where
  "template B v = (case v of String s \<Rightarrow> Inr s | _ \<Rightarrow> toString B v)"

definition js_gt :: "browser \<Rightarrow> js_string \<Rightarrow> js_value \<Rightarrow> js_error + bool" where
  "js_gt B a v = (case v of String s \<Rightarrow> Inr (js_string_lt s a) | _ \<Rightarrow> greaterThan B a v)"

datatype conn_state = New | Connecting | Connected | Disconnected | Failed | Closed

text \<open>
  An \<^verbatim>\<open>RTCPeerConnection\<close> as the class sees it: the operations completed on it, oldest
  first, which of its handler slots the class has filled, and its \<^verbatim>\<open>connectionState\<close>.
\<close>

record peer_connection =
  iceServers :: "string list"
  calls :: "pc_call list"
  ondatachannel :: bool
  ontrack :: bool
  onicecandidate :: bool
  onconnectionstatechange :: bool
  connectionState :: conn_state

text \<open>An \<^verbatim>\<open>RTCDataChannel\<close>: its label and whether \<^verbatim>\<open>setupDataChannel\<close> bound its handlers.\<close>

record data_channel =
  label :: js_string
  bound :: bool

subsection \<open>The fields of PeerWire\<close>

datatype log_entry =
    LogConnected js_string
  | LogPresence js_string js_string
  | LogInitiator
  | LogReceiver
  | LogConnectionState conn_state

record agent =
  clientId :: js_string
  roomId :: js_string
  subscribed :: "js_string list"
  published :: "(js_string \<times> js_value) list"
  pc :: "peer_connection option"
  dataChannel :: "data_channel option"
  localStream :: "track list"
  remoteStream :: "track list"
  isInitiator :: bool
  status :: "string \<times> string"
  console :: "log_entry list"

text \<open>
  The class keeps the role as the flag \<^verbatim>\<open>isInitiator\<close>, \<^verbatim>\<open>false\<close> from the constructor
  on: an agent that is not the initiator is the receiver of the offer.
\<close>

datatype role = INITIATOR | RESPONDER

definition role_of :: "agent \<Rightarrow> role" where
  "role_of a = (if isInitiator a then INITIATOR else RESPONDER)"

subsection \<open>Status and outbound signals\<close>

definition updateStatus :: "string \<Rightarrow> string \<Rightarrow> agent \<Rightarrow> agent" where
  "updateStatus ty txt a = a\<lparr>status := (ty, txt)\<rparr>"

definition signalTopic :: "agent \<Rightarrow> js_string" where
  "signalTopic a = utf16 ''peerwire/rooms'' @ utf16 ''/'' @ roomId a @ utf16 ''/signals''"

text \<open>The object literal \<^verbatim>\<open>{ sender: ..., type: ..., data: ... }\<close> of \<^verbatim>\<open>sendSignal\<close>.\<close>

definition envelope :: "js_string \<Rightarrow> string \<Rightarrow> js_value \<Rightarrow> js_value" where
  "envelope s ty d =
     Object [(utf16 ''sender'', String s), (utf16 ''type'', String (utf16 ty)), (utf16 ''data'', d)]"

text \<open>
  \<^verbatim>\<open>sendSignal(type, data)\<close>. The published payload is kept as the object given to
  \<^verbatim>\<open>JSON.stringify\<close>; the peer's \<^verbatim>\<open>JSON.parse\<close> gives that value back.
\<close>

definition sendSignal :: "string \<Rightarrow> js_value \<Rightarrow> agent \<Rightarrow> agent" where
  "sendSignal ty d a =
     (let payload = envelope (clientId a) ty d
      in a\<lparr>published := published a @ [(signalTopic a, payload)]\<rparr>)"

definition log :: "log_entry \<Rightarrow> agent \<Rightarrow> agent" where
  "log e a = a\<lparr>console := console a @ [e]\<rparr>"

subsection \<open>The peer connection\<close>

definition setupDataChannel :: "data_channel \<Rightarrow> data_channel" where
  "setupDataChannel ch = ch\<lparr>bound := True\<rparr>"

text \<open>
  \<^verbatim>\<open>createPeerConnection()\<close>: nothing when \<^verbatim>\<open>this.pc\<close> is set; otherwise a new
  connection, the data channel (initiator) or the \<^verbatim>\<open>ondatachannel\<close> handler (receiver),
  the local tracks, and the three handlers. The synchronous calls made on the browser here
  (the constructor, \<^verbatim>\<open>createDataChannel\<close>, \<^verbatim>\<open>addTrack\<close>) return normally.
\<close>

definition createPeerConnection :: "agent \<Rightarrow> agent" where
  "createPeerConnection a =
     (if pc a \<noteq> None then a
      else
        let p0 = \<lparr>iceServers = [''stun:stun.l.google.com:19302''], calls = [],
                   ondatachannel = False, ontrack = False, onicecandidate = False,
                   onconnectionstatechange = False, connectionState = New\<rparr>;
            (p1, dc) =
              (if isInitiator a
               then (p0\<lparr>calls := calls p0 @ [CreateDataChannel (utf16 ''chat'')]\<rparr>,
                     Some (setupDataChannel \<lparr>label = utf16 ''chat'', bound = False\<rparr>))
               else (p0\<lparr>ondatachannel := True\<rparr>, dataChannel a));
            p2 = p1\<lparr>calls := calls p1 @ map AddTrack (localStream a)\<rparr>;
            p3 = p2\<lparr>ontrack := True, onicecandidate := True, onconnectionstatechange := True\<rparr>
        in a\<lparr>pc := Some p3, dataChannel := dc\<rparr>)"

text \<open>
  The earlier revision of \<^verbatim>\<open>createPeerConnection()\<close> in the same file: the same guard,
  no data channel.
\<close>

definition createPeerConnection_v1 :: "agent \<Rightarrow> agent" where
  "createPeerConnection_v1 a =
     (if pc a \<noteq> None then a
      else
        let p0 = \<lparr>iceServers = [''stun:stun.l.google.com:19302''], calls = [],
                   ondatachannel = False, ontrack = False, onicecandidate = False,
                   onconnectionstatechange = False, connectionState = New\<rparr>;
            p1 = p0\<lparr>calls := calls p0 @ map AddTrack (localStream a)\<rparr>;
            p2 = p1\<lparr>ontrack := True, onicecandidate := True, onconnectionstatechange := True\<rparr>
        in a\<lparr>pc := Some p2\<rparr>)"

text \<open>An operation that completed on the connection is appended to its history.\<close>

definition record_call :: "pc_call \<Rightarrow> agent \<Rightarrow> agent" where
  "record_call c a =
     (case pc a of None \<Rightarrow> a | Some p \<Rightarrow> a\<lparr>pc := Some (p\<lparr>calls := calls p @ [c]\<rparr>)\<rparr>)"

text \<open>
  \<^verbatim>\<open>startCall()\<close>. A member access on \<^verbatim>\<open>this.pc\<close> when it is \<^verbatim>\<open>null\<close> is a
  \<^verbatim>\<open>TypeError\<close>; a rejected \<^verbatim>\<open>await\<close> ends the function there.
\<close>

definition startCall :: "browser \<Rightarrow> agent \<Rightarrow> agent \<times> outcome" where
  "startCall B a =
     (let a1 = createPeerConnection a in
      case pc a1 of
        None \<Rightarrow> (a1, Rejected TypeError)
      | Some p \<Rightarrow>
         (case createOffer B (calls p) of
            Inl e \<Rightarrow> (a1, Rejected e)
          | Inr offer \<Rightarrow>
             (let a2 = record_call (CreateOffer offer) a1 in
              case setLocalDescription B (calls p @ [CreateOffer offer]) offer of
                Some e \<Rightarrow> (a2, Rejected e)
              | None \<Rightarrow>
                 (let a3 = record_call (SetLocalDescription offer) a2;
                      a4 = sendSignal ''offer'' offer a3
                  in (updateStatus ''connecting'' ''Calling...'' a4, Returned)))))"

definition handleOffer :: "browser \<Rightarrow> agent \<Rightarrow> js_value \<Rightarrow> agent \<times> outcome" where
  "handleOffer B a offer =
     (let a1 = createPeerConnection a in
      case pc a1 of
        None \<Rightarrow> (a1, Rejected TypeError)
      | Some p \<Rightarrow>
         (case setRemoteDescription B (calls p) offer of
            Some e \<Rightarrow> (a1, Rejected e)
          | None \<Rightarrow>
             (let cs1 = calls p @ [SetRemoteDescription offer];
                  a2 = record_call (SetRemoteDescription offer) a1 in
              case createAnswer B cs1 of
                Inl e \<Rightarrow> (a2, Rejected e)
              | Inr answer \<Rightarrow>
                 (let cs2 = cs1 @ [CreateAnswer answer];
                      a3 = record_call (CreateAnswer answer) a2 in
                  case setLocalDescription B cs2 answer of
                    Some e \<Rightarrow> (a3, Rejected e)
                  | None \<Rightarrow>
                     (let a4 = record_call (SetLocalDescription answer) a3
                      in (sendSignal ''answer'' answer a4, Returned))))))"

definition handleAnswer :: "browser \<Rightarrow> agent \<Rightarrow> js_value \<Rightarrow> agent \<times> outcome" where
  "handleAnswer B a answer =
     (case pc a of
        None \<Rightarrow> (a, Rejected TypeError)
      | Some p \<Rightarrow>
         (case setRemoteDescription B (calls p) answer of
            Some e \<Rightarrow> (a, Rejected e)
          | None \<Rightarrow> (record_call (SetRemoteDescription answer) a, Returned)))"

subsection \<open>Inbound signals\<close>

text \<open>
  \<^verbatim>\<open>handleSignal(signal)\<close>: the \<^verbatim>\<open>switch\<close> compares \<^verbatim>\<open>type\<close> with \<^verbatim>\<open>===\<close> and has
  no default case. \<^verbatim>\<open>startCall()\<close> is not awaited; its rejection is unhandled like the
  handler's own.
\<close>

definition handleSignal :: "browser \<Rightarrow> agent \<Rightarrow> js_value \<Rightarrow> agent \<times> outcome" where
  "handleSignal B a signal =
     (let sender = property signal ''sender'';
          type = property signal ''type'';
          data = property signal ''data''
      in
      if type = String (utf16 ''presence'') then
        (case template B sender of
           Inl e \<Rightarrow> (a, Rejected e)
         | Inr txt \<Rightarrow>
            (let a1 = log (LogPresence txt (clientId a)) a in
             case js_gt B (clientId a) sender of
               Inl e \<Rightarrow> (a1, Rejected e)
             | Inr initiator \<Rightarrow>
                (if initiator
                 then startCall B ((log LogInitiator a1)\<lparr>isInitiator := True\<rparr>)
                 else ((log LogReceiver a1)\<lparr>isInitiator := False\<rparr>, Returned))))
      else if type = String (utf16 ''offer'') then handleOffer B a data
      else if type = String (utf16 ''answer'') then handleAnswer B a data
      else if type = String (utf16 ''candidate'') then
        (case pc a of
           None \<Rightarrow> (a, Returned)
         | Some p \<Rightarrow>
            (case addIceCandidate B (calls p) data of
               Some e \<Rightarrow> (a, Rejected e)
             | None \<Rightarrow> (record_call (AddIceCandidate data) a, Returned)))
      else (a, Returned))"

text \<open>
  A delivered MQTT message, by what \<^verbatim>\<open>JSON.parse(message.toString())\<close> does with it:
  it throws a \<^verbatim>\<open>SyntaxError\<close>, or it returns a value.
\<close>

datatype message = Malformed | Parsed js_value

text \<open>
  The \<^verbatim>\<open>'message'\<close> callback of \<^verbatim>\<open>setupMQTT\<close>. There is no \<^verbatim>\<open>try\<close>: the
  \<^verbatim>\<open>SyntaxError\<close> of \<^verbatim>\<open>JSON.parse\<close> and the \<^verbatim>\<open>TypeError\<close> of \<^verbatim>\<open>payload.sender\<close>
  on \<^verbatim>\<open>null\<close> leave the callback.
\<close>

definition on_message :: "browser \<Rightarrow> agent \<Rightarrow> message \<Rightarrow> agent \<times> outcome" where
  "on_message B a m =
     (case m of
        Malformed \<Rightarrow> (a, Threw SyntaxError)
      | Parsed payload \<Rightarrow>
         (if payload = Null \<or> payload = Undefined then (a, Threw TypeError)
          else if property payload ''sender'' = String (clientId a) then (a, Returned)
          else handleSignal B a payload))"

text \<open>The \<^verbatim>\<open>'connect'\<close> callback of \<^verbatim>\<open>setupMQTT\<close>.\<close>

definition on_connect :: "agent \<Rightarrow> agent" where
  "on_connect a =
     (let a1 = log (LogConnected (clientId a)) a;
          a2 = a1\<lparr>subscribed := subscribed a1 @ [signalTopic a1]\<rparr>;
          a3 = updateStatus ''connecting'' ''Waiting for peer...'' a2
      in sendSignal ''presence'' (Object []) a3)"

subsection \<open>Handlers set on the peer connection\<close>

text \<open>Truthiness, for \<^verbatim>\<open>if (event.candidate)\<close>.\<close>

fun truthy :: "js_value \<Rightarrow> bool" where
  "truthy Undefined = False"
| "truthy Null = False"
| "truthy (Boolean b) = b"
| "truthy (Number n) = (n \<noteq> 0)"
| "truthy (String s) = (s \<noteq> [])"
| "truthy (Array xs) = True"
| "truthy (Object kvs) = True"

text \<open>An event of the connection reaches the class only through a handler it has set.\<close>

definition on_icecandidate :: "agent \<Rightarrow> js_value \<Rightarrow> agent" where
  "on_icecandidate a candidate =
     (case pc a of
        None \<Rightarrow> a
      | Some p \<Rightarrow>
         (if onicecandidate p \<and> truthy candidate
          then sendSignal ''candidate'' candidate a else a))"

definition on_connectionstatechange :: "agent \<Rightarrow> conn_state \<Rightarrow> agent" where
  "on_connectionstatechange a st =
     (case pc a of
        None \<Rightarrow> a
      | Some p \<Rightarrow>
         (let a1 = a\<lparr>pc := Some (p\<lparr>connectionState := st\<rparr>)\<rparr> in
          if \<not> onconnectionstatechange p then a1
          else
            (let a2 = log (LogConnectionState st) a1 in
             if st = Connected then updateStatus ''online'' ''Connected'' a2
             else if st = Disconnected \<or> st = Failed
             then updateStatus ''disconnected'' ''Peer disconnected'' a2
             else a2)))"

definition on_track :: "agent \<Rightarrow> track list \<Rightarrow> agent" where
  "on_track a ts =
     (case pc a of
        None \<Rightarrow> a
      | Some p \<Rightarrow>
         (if ontrack p
          then updateStatus ''online'' ''Connected'' (a\<lparr>remoteStream := remoteStream a @ ts\<rparr>)
          else a))"

definition on_datachannel :: "agent \<Rightarrow> data_channel \<Rightarrow> agent" where
  "on_datachannel a ch =
     (case pc a of
        None \<Rightarrow> a
      | Some p \<Rightarrow>
         (if ondatachannel p then a\<lparr>dataChannel := Some (setupDataChannel ch)\<rparr> else a))"

subsection \<open>An agent and the events it receives\<close>

text \<open>
  The fields after the constructor and \<^verbatim>\<open>init()\<close> up to \<^verbatim>\<open>setupMQTT()\<close>, for a
  non-empty room: the client id is the random string the constructor drew.
\<close>

definition initial :: "js_string \<Rightarrow> js_string \<Rightarrow> track list \<Rightarrow> agent" where
  "initial cid room tracks =
     \<lparr>clientId = cid, roomId = room, subscribed = [], published = [], pc = None,
      dataChannel = None, localStream = tracks, remoteStream = [], isInitiator = False,
      status = (''connecting'', ''Joining room...''), console = []\<rparr>"

datatype event =
    Connect
  | Message message
  | IceCandidate js_value
  | ConnectionStateChange conn_state
  | Track "track list"
  | DataChannel data_channel

fun fire :: "browser \<Rightarrow> agent \<Rightarrow> event \<Rightarrow> agent \<times> outcome" where
  "fire B a Connect = (on_connect a, Returned)"
| "fire B a (Message m) = on_message B a m"
| "fire B a (IceCandidate c) = (on_icecandidate a c, Returned)"
| "fire B a (ConnectionStateChange st) = (on_connectionstatechange a st, Returned)"
| "fire B a (Track ts) = (on_track a ts, Returned)"
| "fire B a (DataChannel ch) = (on_datachannel a ch, Returned)"

fun run :: "browser \<Rightarrow> agent \<Rightarrow> event list \<Rightarrow> agent" where
  "run B a [] = a"
| "run B a (e # es) = run B (fst (fire B a e)) es"

text \<open>The candidates added to the agent's connection, in the order they were added.\<close>

definition applied_candidates :: "agent \<Rightarrow> js_value list" where
  "applied_candidates a =
     (case pc a of
        None \<Rightarrow> []
      | Some p \<Rightarrow> concat (map (\<lambda>c. case c of AddIceCandidate d \<Rightarrow> [d] | _ \<Rightarrow> []) (calls p)))"

text \<open>The payloads of one type among those the agent has published, oldest first.\<close>

definition published_of :: "string \<Rightarrow> agent \<Rightarrow> js_value list" where
  "published_of ty a =
     filter (\<lambda>p. property p ''type'' = String (utf16 ty)) (map snd (published a))"

text \<open>Every payload the agent has published names the agent as its sender.\<close>

definition own_sender :: "agent \<Rightarrow> bool" where
  "own_sender a = list_all (\<lambda>tp. property (snd tp) ''sender'' = String (clientId a)) (published a)"

subsection \<open>Two agents on one relay\<close>

text \<open>
  Two agents in one room. The relay hands a published payload to any agent subscribed to
  its topic, the publisher included; \<open>Delivers x i y\<close> is the delivery to \<open>y\<close> of the
  \<open>i\<close>-th payload \<open>x\<close> has published.
\<close>

datatype party = AgentA | AgentB

record system =
  agentA :: agent
  agentB :: agent

datatype action =
    Connects party
  | Delivers party nat party
  | Transport party conn_state

definition agent_of :: "system \<Rightarrow> party \<Rightarrow> agent" where
  "agent_of s x = (case x of AgentA \<Rightarrow> agentA s | AgentB \<Rightarrow> agentB s)"

definition set_agent :: "party \<Rightarrow> agent \<Rightarrow> system \<Rightarrow> system" where
  "set_agent x a s = (case x of AgentA \<Rightarrow> s\<lparr>agentA := a\<rparr> | AgentB \<Rightarrow> s\<lparr>agentB := a\<rparr>)"

definition browser_of :: "browser \<Rightarrow> browser \<Rightarrow> party \<Rightarrow> browser" where
  "browser_of BA BB x = (case x of AgentA \<Rightarrow> BA | AgentB \<Rightarrow> BB)"

fun sys_step :: "browser \<Rightarrow> browser \<Rightarrow> system \<Rightarrow> action \<Rightarrow> system" where
  "sys_step BA BB s (Connects x) = set_agent x (on_connect (agent_of s x)) s"
| "sys_step BA BB s (Delivers x i y) =
     (let out = published (agent_of s x) in
      if i < length out \<and> fst (out ! i) \<in> set (subscribed (agent_of s y))
      then set_agent y
             (fst (on_message (browser_of BA BB y) (agent_of s y) (Parsed (snd (out ! i))))) s
      else s)"
| "sys_step BA BB s (Transport x st) = set_agent x (on_connectionstatechange (agent_of s x) st) s"

fun sys_run :: "browser \<Rightarrow> browser \<Rightarrow> system \<Rightarrow> action list \<Rightarrow> system" where
  "sys_run BA BB s [] = s"
| "sys_run BA BB s (x # xs) = sys_run BA BB (sys_step BA BB s x) xs"

subsection \<open>Concrete inputs\<close>

text \<open>
  A browser on which every operation of the connection succeeds, creating the given offer
  and answer, and the values used below where a statement is evaluated at an input.
\<close>

definition cooperative :: "js_value \<Rightarrow> js_value \<Rightarrow> browser" where
  "cooperative off ans =
     \<lparr>toString = (\<lambda>v. Inr []), greaterThan = (\<lambda>a v. Inr False),
      createOffer = (\<lambda>cs. Inr off), createAnswer = (\<lambda>cs. Inr ans),
      setLocalDescription = (\<lambda>cs d. None), setRemoteDescription = (\<lambda>cs d. None),
      addIceCandidate = (\<lambda>cs d. None)\<rparr>"

definition sdp_offer :: js_value where
  "sdp_offer = Object [(utf16 ''type'', String (utf16 ''offer'')), (utf16 ''sdp'', String (utf16 ''v=0 o''))]"

definition sdp_answer :: js_value where
  "sdp_answer = Object [(utf16 ''type'', String (utf16 ''answer'')), (utf16 ''sdp'', String (utf16 ''v=0 a''))]"

definition sdp_offer_aaa :: js_value where
  "sdp_offer_aaa = Object [(utf16 ''type'', String (utf16 ''offer'')), (utf16 ''sdp'', String (utf16 ''v=0 b''))]"

definition ice0 :: js_value where
  "ice0 = Object [(utf16 ''candidate'', String (utf16 ''candidate:0 1 udp 1 192.0.2.1 9 typ host'')),
                  (utf16 ''sdpMid'', String (utf16 ''0''))]"

definition browser0 :: browser where
  "browser0 = cooperative sdp_offer sdp_answer"

definition agent_zzz :: agent where
  "agent_zzz = on_connect (initial (utf16 ''zzz'') (utf16 ''room1'') [0, 1])"

definition agent_aaa :: agent where
  "agent_aaa = on_connect (initial (utf16 ''aaa'') (utf16 ''room1'') [2, 3])"

text \<open>The case labels of the \<^verbatim>\<open>switch\<close> in \<^verbatim>\<open>handleSignal\<close>.\<close>

definition known_types :: "string list" where
  "known_types = [''presence'', ''offer'', ''answer'', ''candidate'']"

text \<open>The agent \<^verbatim>\<open>"zzz"\<close> once it has handled the presence of \<^verbatim>\<open>"aaa"\<close>.\<close>

definition initiator_zzz :: agent where
  "initiator_zzz =
     fst (on_message browser0 agent_zzz
            (Parsed (envelope (utf16 ''aaa'') ''presence'' (Object []))))"

text \<open>The schedule of the two-party handshake: every payload also returns to its publisher.\<close>

definition handshake :: "action list" where
  "handshake =
     [Connects AgentA, Connects AgentB,
      Delivers AgentA 0 AgentA, Delivers AgentB 0 AgentB,
      Delivers AgentB 0 AgentA, Delivers AgentA 0 AgentB,
      Delivers AgentA 1 AgentA, Delivers AgentA 1 AgentB,
      Delivers AgentB 1 AgentB, Delivers AgentB 1 AgentA,
      Transport AgentA Connected, Transport AgentB Connected]"

text \<open>The two agents of the scenario, ids \<^verbatim>\<open>"zzz"\<close> and \<^verbatim>\<open>"aaa"\<close>, after the schedule.\<close>

definition handshake_result ::
    "browser \<Rightarrow> browser \<Rightarrow> js_string \<Rightarrow> track list \<Rightarrow> track list \<Rightarrow> system" where
  "handshake_result BA BB room ta tb =
     sys_run BA BB
       \<lparr>agentA = initial (utf16 ''zzz'') room ta, agentB = initial (utf16 ''aaa'') room tb\<rparr>
       handshake"

section \<open>Auxiliary facts\<close>

subsection \<open>Strings and envelopes\<close>

lemma js_string_lt_total: "a \<noteq> b \<Longrightarrow> js_string_lt a b \<noteq> js_string_lt b a"
  by (induction a b rule: js_string_lt.induct) auto

lemma js_string_lt_irrefl: "\<not> js_string_lt a a"
  by (induction a) auto

lemma utf16_code_unit_inj:
  "(of_nat (of_char c) :: 16 word) = of_nat (of_char d) \<longleftrightarrow> c = d"
proof -
  have lt: "\<And>e::char. (of_char e :: nat) < 2 ^ 16"
  proof -
    fix e :: char
    show "(of_char e :: nat) < 2 ^ 16"
      by (rule less_trans [OF nat_of_char_less_256]) simp
  qed
  have tb: "\<And>e::char. take_bit 16 (of_char e :: nat) = of_char e"
    by (rule take_bit_nat_eq_self) (rule lt)
  show ?thesis
    by (simp add: word_of_nat_eq_iff tb)
qed

lemma utf16_eq_iff: "utf16 x = utf16 y \<longleftrightarrow> x = y"
proof -
  have "inj (\<lambda>c::char. of_nat (of_char c) :: 16 word)"
    by (rule injI) (simp add: utf16_code_unit_inj)
  then show ?thesis
    unfolding utf16_def by (simp add: inj_map_eq_map)
qed

lemma property_envelope:
  "property (envelope s ty d) ''sender'' = String s"
  "property (envelope s ty d) ''type'' = String (utf16 ty)"
  "property (envelope s ty d) ''data'' = d"
  by (simp_all add: property_def envelope_def utf16_eq_iff)

lemma aaa_lt_zzz:
  "js_string_lt (utf16 ''aaa'') (utf16 ''zzz'')"
  "\<not> js_string_lt (utf16 ''zzz'') (utf16 ''aaa'')"
  by (simp_all add: utf16_def)

lemma published_of_envelopes:
  "published_of ty a
     = filter (\<lambda>p. property p ''type'' = String (utf16 ty)) (map snd (published a))"
  by (simp add: published_of_def)

subsection \<open>Creating the peer connection\<close>

lemma createPeerConnection_some: "pc (createPeerConnection a) \<noteq> None"
  by (simp add: createPeerConnection_def Let_def split: prod.splits)

lemma createPeerConnection_same: "pc a = Some p \<Longrightarrow> createPeerConnection a = a"
  by (simp add: createPeerConnection_def)

lemma createPeerConnection_noop: "pc a \<noteq> None \<Longrightarrow> createPeerConnection a = a"
  by (simp add: createPeerConnection_def)

lemma createPeerConnection_twice:
  "createPeerConnection (createPeerConnection a) = createPeerConnection a"
  using createPeerConnection_some [of a] by (auto intro: createPeerConnection_same)

lemma createPeerConnection_fresh:
  assumes "pc a = None"
  shows "pc (createPeerConnection a) =
    Some \<lparr>iceServers = [''stun:stun.l.google.com:19302''],
          calls = (if isInitiator a then [CreateDataChannel (utf16 ''chat'')] else [])
                    @ map AddTrack (localStream a),
          ondatachannel = (\<not> isInitiator a), ontrack = True, onicecandidate = True,
          onconnectionstatechange = True, connectionState = New\<rparr>"
  using assms by (simp add: createPeerConnection_def Let_def)

subsection \<open>Field by field\<close>

lemma initial_fields:
  "clientId (initial c r ts) = c"
  "roomId (initial c r ts) = r"
  "subscribed (initial c r ts) = []"
  "published (initial c r ts) = []"
  "pc (initial c r ts) = None"
  "isInitiator (initial c r ts) = False"
  "localStream (initial c r ts) = ts"
  "console (initial c r ts) = []"
  by (simp_all add: initial_def)

lemma sendSignal_fields:
  "clientId (sendSignal ty d a) = clientId a"
  "roomId (sendSignal ty d a) = roomId a"
  "localStream (sendSignal ty d a) = localStream a"
  "subscribed (sendSignal ty d a) = subscribed a"
  "pc (sendSignal ty d a) = pc a"
  "isInitiator (sendSignal ty d a) = isInitiator a"
  "status (sendSignal ty d a) = status a"
  "console (sendSignal ty d a) = console a"
  "published (sendSignal ty d a) = published a @ [(signalTopic a, envelope (clientId a) ty d)]"
  by (simp_all add: sendSignal_def Let_def)

lemma updateStatus_fields:
  "clientId (updateStatus ty txt a) = clientId a"
  "roomId (updateStatus ty txt a) = roomId a"
  "localStream (updateStatus ty txt a) = localStream a"
  "subscribed (updateStatus ty txt a) = subscribed a"
  "pc (updateStatus ty txt a) = pc a"
  "isInitiator (updateStatus ty txt a) = isInitiator a"
  "status (updateStatus ty txt a) = (ty, txt)"
  "console (updateStatus ty txt a) = console a"
  "published (updateStatus ty txt a) = published a"
  by (simp_all add: updateStatus_def)

lemma log_fields:
  "clientId (log e a) = clientId a"
  "roomId (log e a) = roomId a"
  "localStream (log e a) = localStream a"
  "subscribed (log e a) = subscribed a"
  "pc (log e a) = pc a"
  "isInitiator (log e a) = isInitiator a"
  "status (log e a) = status a"
  "console (log e a) = console a @ [e]"
  "published (log e a) = published a"
  by (simp_all add: log_def)

lemma record_call_fields:
  "clientId (record_call c a) = clientId a"
  "roomId (record_call c a) = roomId a"
  "localStream (record_call c a) = localStream a"
  "subscribed (record_call c a) = subscribed a"
  "pc (record_call c a) = map_option (\<lambda>p. p\<lparr>calls := calls p @ [c]\<rparr>) (pc a)"
  "isInitiator (record_call c a) = isInitiator a"
  "status (record_call c a) = status a"
  "console (record_call c a) = console a"
  "published (record_call c a) = published a"
  by (simp_all add: record_call_def split: option.splits)

lemma createPeerConnection_fields:
  "clientId (createPeerConnection a) = clientId a"
  "roomId (createPeerConnection a) = roomId a"
  "localStream (createPeerConnection a) = localStream a"
  "subscribed (createPeerConnection a) = subscribed a"
  "isInitiator (createPeerConnection a) = isInitiator a"
  "status (createPeerConnection a) = status a"
  "console (createPeerConnection a) = console a"
  "published (createPeerConnection a) = published a"
  by (simp_all add: createPeerConnection_def Let_def split: prod.splits)

lemma calls_appended:
  "map_option calls (map_option (\<lambda>p. p\<lparr>calls := calls p @ [c]\<rparr>) x)
     = map_option (\<lambda>cs. cs @ [c]) (map_option calls x)"
  by (cases x) simp_all

lemma on_connect_fields:
  "clientId (on_connect a) = clientId a"
  "roomId (on_connect a) = roomId a"
  "subscribed (on_connect a) = subscribed a @ [signalTopic a]"
  "pc (on_connect a) = pc a"
  "isInitiator (on_connect a) = isInitiator a"
  "status (on_connect a) = (''connecting'', ''Waiting for peer...'')"
  "console (on_connect a) = console a @ [LogConnected (clientId a)]"
  "published (on_connect a)
     = published a @ [(signalTopic a, envelope (clientId a) ''presence'' (Object []))]"
  "localStream (on_connect a) = localStream a"
  by (simp_all add: on_connect_def Let_def sendSignal_def updateStatus_def log_def
        signalTopic_def)

lemma on_connectionstatechange_fields:
  "clientId (on_connectionstatechange a st) = clientId a"
  "roomId (on_connectionstatechange a st) = roomId a"
  "subscribed (on_connectionstatechange a st) = subscribed a"
  "isInitiator (on_connectionstatechange a st) = isInitiator a"
  "published (on_connectionstatechange a st) = published a"
  "pc (on_connectionstatechange a st) = map_option (\<lambda>p. p\<lparr>connectionState := st\<rparr>) (pc a)"
  by (simp_all add: on_connectionstatechange_def Let_def updateStatus_def log_def
        split: option.splits)

lemma on_connectionstatechange_connected:
  assumes "map_option onconnectionstatechange (pc a) = Some True"
  shows "status (on_connectionstatechange a Connected) = (''online'', ''Connected'')"
  using assms
  by (auto simp add: on_connectionstatechange_def Let_def updateStatus_def log_def)

lemma on_connectionstatechange_console:
  assumes "map_option onconnectionstatechange (pc a) = Some True"
  shows "console (on_connectionstatechange a st) = console a @ [LogConnectionState st]"
  using assms
  by (auto simp add: on_connectionstatechange_def Let_def updateStatus_def log_def)

subsection \<open>The handlers when the browser accepts\<close>

lemma startCall_accepted:
  assumes "createOffer B (calls (the (pc (createPeerConnection a)))) = Inr off"
    and "setLocalDescription B (calls (the (pc (createPeerConnection a))) @ [CreateOffer off]) off
           = None"
  shows "startCall B a =
    (updateStatus ''connecting'' ''Calling...''
       (sendSignal ''offer'' off
          (record_call (SetLocalDescription off)
             (record_call (CreateOffer off) (createPeerConnection a)))), Returned)"
proof -
  obtain p where p: "pc (createPeerConnection a) = Some p"
    using createPeerConnection_some [of a] by auto
  show ?thesis
    using assms p by (simp add: startCall_def Let_def)
qed

lemma handleOffer_accepted:
  assumes "setRemoteDescription B (calls (the (pc (createPeerConnection a)))) d = None"
    and "createAnswer B (calls (the (pc (createPeerConnection a))) @ [SetRemoteDescription d])
           = Inr ans"
    and "setLocalDescription B
           (calls (the (pc (createPeerConnection a))) @ [SetRemoteDescription d, CreateAnswer ans])
           ans = None"
  shows "handleOffer B a d =
    (sendSignal ''answer'' ans
       (record_call (SetLocalDescription ans)
          (record_call (CreateAnswer ans)
             (record_call (SetRemoteDescription d) (createPeerConnection a)))), Returned)"
proof -
  obtain p where p: "pc (createPeerConnection a) = Some p"
    using createPeerConnection_some [of a] by auto
  show ?thesis
    using assms p by (simp add: handleOffer_def Let_def)
qed

lemma handleAnswer_accepted:
  assumes "pc a \<noteq> None" and "setRemoteDescription B (calls (the (pc a))) d = None"
  shows "handleAnswer B a d = (record_call (SetRemoteDescription d) a, Returned)"
  using assms by (auto simp add: handleAnswer_def)

subsection \<open>Dispatch\<close>

lemma on_message_own_sender:
  assumes "property payload ''sender'' = String (clientId a)"
  shows "on_message B a (Parsed payload) = (a, Returned)"
  using assms by (cases payload) (simp_all add: on_message_def property_def)

lemma on_message_other_sender:
  assumes "s \<noteq> clientId a"
  shows "on_message B a (Parsed (envelope s ty d)) = handleSignal B a (envelope s ty d)"
  using assms by (simp add: on_message_def property_envelope) (simp add: envelope_def)

lemma on_message_dispatch:
  assumes "property p ''sender'' \<noteq> String (clientId a)"
    and "property p ''type'' = String t"
  shows "on_message B a (Parsed p) = handleSignal B a p"
  using assms by (cases p) (simp_all add: on_message_def property_def)

lemma handleSignal_presence:
  "handleSignal B a (envelope s ''presence'' d) =
     (if js_string_lt s (clientId a)
      then startCall B ((log LogInitiator (log (LogPresence s (clientId a)) a))\<lparr>isInitiator := True\<rparr>)
      else ((log LogReceiver (log (LogPresence s (clientId a)) a))\<lparr>isInitiator := False\<rparr>,
            Returned))"
  by (simp add: handleSignal_def Let_def property_envelope template_def js_gt_def)

lemma handleSignal_offer:
  "handleSignal B a (envelope s ''offer'' d) = handleOffer B a d"
  by (simp add: handleSignal_def Let_def property_envelope utf16_eq_iff)

lemma handleSignal_answer:
  "handleSignal B a (envelope s ''answer'' d) = handleAnswer B a d"
  by (simp add: handleSignal_def Let_def property_envelope utf16_eq_iff)

lemma handleSignal_candidate:
  "handleSignal B a (envelope s ''candidate'' d) =
     (case pc a of
        None \<Rightarrow> (a, Returned)
      | Some p \<Rightarrow>
         (case addIceCandidate B (calls p) d of
            Some e \<Rightarrow> (a, Rejected e)
          | None \<Rightarrow> (record_call (AddIceCandidate d) a, Returned)))"
  by (simp add: handleSignal_def Let_def property_envelope utf16_eq_iff)

lemma handleSignal_offer_gen:
  assumes "property p ''type'' = String (utf16 ''offer'')"
  shows "handleSignal B a p = handleOffer B a (property p ''data'')"
  using assms by (simp add: handleSignal_def Let_def utf16_eq_iff)

lemma handleSignal_candidate_gen:
  assumes "property p ''type'' = String (utf16 ''candidate'')"
  shows "handleSignal B a p =
     (case pc a of
        None \<Rightarrow> (a, Returned)
      | Some q \<Rightarrow>
         (case addIceCandidate B (calls q) (property p ''data'') of
            Some e \<Rightarrow> (a, Rejected e)
          | None \<Rightarrow> (record_call (AddIceCandidate (property p ''data'')) a, Returned)))"
  using assms by (simp add: handleSignal_def Let_def utf16_eq_iff)

lemma startCall_isInitiator: "isInitiator (fst (startCall B a)) = isInitiator a"
  by (simp add: startCall_def Let_def createPeerConnection_fields record_call_fields
        sendSignal_fields updateStatus_fields split: option.splits sum.splits)

lemma presence_isInitiator:
  assumes "property s ''type'' = String (utf16 ''presence'')"
    and "property s ''sender'' = String r"
  shows "isInitiator (fst (handleSignal B a s)) = js_string_lt r (clientId a)"
  using assms
  by (simp add: handleSignal_def Let_def template_def js_gt_def startCall_isInitiator log_def)

lemma handleOffer_never_throws: "snd (handleOffer B a d) \<noteq> Threw e"
  by (simp add: handleOffer_def Let_def split: option.splits sum.splits)

lemma handleOffer_keeps:
  "console (fst (handleOffer B a d)) = console a"
  "pc (fst (handleOffer B a d)) \<noteq> None"
  "isInitiator (fst (handleOffer B a d)) = isInitiator a"
  using createPeerConnection_some [of a]
  by (auto simp add: handleOffer_def Let_def createPeerConnection_fields record_call_fields
      sendSignal_fields split: option.splits sum.splits)

subsection \<open>Candidates added\<close>

lemma applied_candidates_record_call:
  "applied_candidates (record_call c a)
     = applied_candidates a
       @ (case pc a of None \<Rightarrow> [] | Some p \<Rightarrow> (case c of AddIceCandidate d \<Rightarrow> [d] | _ \<Rightarrow> []))"
  by (simp add: applied_candidates_def record_call_def split: option.splits)

lemma applied_candidates_createPeerConnection:
  "applied_candidates (createPeerConnection a) = applied_candidates a"
proof (cases "pc a")
  case None
  have "concat (map (\<lambda>c. case c of AddIceCandidate d \<Rightarrow> [d] | _ \<Rightarrow> []) (map AddTrack ts)) = []"
    for ts
    by (induction ts) simp_all
  with None show ?thesis
    by (simp add: applied_candidates_def createPeerConnection_fresh)
next
  case (Some p)
  then show ?thesis by (simp add: createPeerConnection_same)
qed

lemma applied_candidates_sendSignal:
  "applied_candidates (sendSignal ty d a) = applied_candidates a"
  by (simp add: applied_candidates_def sendSignal_fields)

lemma applied_candidates_handleOffer:
  "applied_candidates (fst (handleOffer B a d)) = applied_candidates a"
  by (simp add: handleOffer_def Let_def applied_candidates_record_call
      applied_candidates_createPeerConnection applied_candidates_sendSignal
      split: option.splits sum.splits)

lemma applied_candidates_handleAnswer:
  "applied_candidates (fst (handleAnswer B a d)) = applied_candidates a"
  by (simp add: handleAnswer_def applied_candidates_record_call split: option.splits)

subsection \<open>Published payloads\<close>

lemma own_sender_sendSignal: "own_sender a \<Longrightarrow> own_sender (sendSignal ty d a)"
  by (simp add: own_sender_def sendSignal_fields property_envelope)

lemma own_sender_same:
  assumes "published a' = published a" and "clientId a' = clientId a"
  shows "own_sender a' = own_sender a"
  using assms by (simp add: own_sender_def)

lemma own_sender_startCall: "own_sender a \<Longrightarrow> own_sender (fst (startCall B a))"
  by (simp add: startCall_def Let_def own_sender_def sendSignal_fields updateStatus_fields
      record_call_fields createPeerConnection_fields property_envelope
      split: option.splits sum.splits)

lemma own_sender_handleOffer: "own_sender a \<Longrightarrow> own_sender (fst (handleOffer B a d))"
  by (simp add: handleOffer_def Let_def own_sender_def sendSignal_fields
      record_call_fields createPeerConnection_fields property_envelope
      split: option.splits sum.splits)

lemma own_sender_handleAnswer: "own_sender a \<Longrightarrow> own_sender (fst (handleAnswer B a d))"
  by (simp add: handleAnswer_def own_sender_def record_call_fields split: option.splits)

lemma own_sender_handleSignal: "own_sender a \<Longrightarrow> own_sender (fst (handleSignal B a s))"
proof -
  assume a: "own_sender a"
  have l: "own_sender ((log e2 (log e1 a))\<lparr>isInitiator := b\<rparr>)" for e1 e2 b
    using a by (simp add: own_sender_def log_fields)
  have l1: "own_sender (log e1 a)" for e1
    using a by (simp add: own_sender_def log_fields)
  have r: "own_sender (record_call c a)" for c
    using a by (simp add: own_sender_def record_call_fields)
  show ?thesis
    using a l l1 r
    by (simp add: handleSignal_def Let_def own_sender_startCall own_sender_handleOffer
        own_sender_handleAnswer split: option.splits sum.splits)
qed

lemma own_sender_fire: "own_sender a \<Longrightarrow> own_sender (fst (fire B a e))"
proof (cases e)
  case Connect
  assume "own_sender a"
  then show ?thesis
    using Connect by (simp add: own_sender_def on_connect_fields property_envelope)
next
  case (Message m)
  assume "own_sender a"
  then show ?thesis
    using Message
    by (cases m) (simp_all add: on_message_def own_sender_handleSignal)
next
  case (IceCandidate c)
  assume "own_sender a"
  then show ?thesis
    using IceCandidate
    by (simp add: on_icecandidate_def own_sender_sendSignal split: option.splits)
next
  case (ConnectionStateChange st)
  assume "own_sender a"
  then show ?thesis
    using ConnectionStateChange
    by (simp add: own_sender_def on_connectionstatechange_fields)
next
  case (Track ts)
  assume "own_sender a"
  then show ?thesis
    using Track
    by (simp add: own_sender_def on_track_def updateStatus_def split: option.splits)
next
  case (DataChannel ch)
  assume "own_sender a"
  then show ?thesis
    using DataChannel
    by (simp add: own_sender_def on_datachannel_def split: option.splits)
qed

lemma own_sender_run: "own_sender a \<Longrightarrow> own_sender (run B a es)"
  by (induction es arbitrary: a) (simp_all add: own_sender_fire)

lemma own_sender_initial: "own_sender (initial c r ts)"
  by (simp add: own_sender_def initial_fields)

subsection \<open>The concrete inputs\<close>

lemma browser0_accepts:
  "createOffer browser0 cs = Inr sdp_offer"
  "createAnswer browser0 cs = Inr sdp_answer"
  "setLocalDescription browser0 cs d = None"
  "setRemoteDescription browser0 cs d = None"
  "addIceCandidate browser0 cs d = None"
  by (simp_all add: browser0_def cooperative_def)

lemma agent_zzz_fields:
  "clientId agent_zzz = utf16 ''zzz''"
  "pc agent_zzz = None"
  "isInitiator agent_zzz = False"
  "localStream agent_zzz = [0, 1]"
  "published agent_zzz
     = [(signalTopic agent_zzz, envelope (utf16 ''zzz'') ''presence'' (Object []))]"
  by (simp_all add: agent_zzz_def on_connect_fields initial_fields signalTopic_def)

lemma agent_aaa_fields:
  "clientId agent_aaa = utf16 ''aaa''"
  "pc agent_aaa = None"
  "isInitiator agent_aaa = False"
  "localStream agent_aaa = [2, 3]"
  "published agent_aaa
     = [(signalTopic agent_aaa, envelope (utf16 ''aaa'') ''presence'' (Object []))]"
  by (simp_all add: agent_aaa_def on_connect_fields initial_fields signalTopic_def)

lemma initiator_zzz_eq:
  "initiator_zzz =
     updateStatus ''connecting'' ''Calling...''
       (sendSignal ''offer'' sdp_offer
          (record_call (SetLocalDescription sdp_offer)
             (record_call (CreateOffer sdp_offer)
                (createPeerConnection
                   ((log LogInitiator (log (LogPresence (utf16 ''aaa'') (utf16 ''zzz'')) agent_zzz))
                      \<lparr>isInitiator := True\<rparr>)))))"
proof -
  have ne: "utf16 ''aaa'' \<noteq> clientId agent_zzz"
    by (simp add: agent_zzz_fields utf16_eq_iff)
  show ?thesis
    by (simp add: initiator_zzz_def on_message_other_sender [OF ne] handleSignal_presence
        agent_zzz_fields aaa_lt_zzz startCall_accepted [where off = sdp_offer] browser0_accepts)
qed

lemma initiator_zzz_fields:
  "clientId initiator_zzz = utf16 ''zzz''"
  "isInitiator initiator_zzz"
  "map snd (published initiator_zzz)
     = [envelope (utf16 ''zzz'') ''presence'' (Object []), envelope (utf16 ''zzz'') ''offer'' sdp_offer]"
  "pc initiator_zzz \<noteq> None"
  "map_option calls (pc initiator_zzz)
     = Some [CreateDataChannel (utf16 ''chat''), AddTrack 0, AddTrack 1, CreateOffer sdp_offer,
             SetLocalDescription sdp_offer]"
  by (simp_all add: initiator_zzz_eq updateStatus_fields sendSignal_fields record_call_fields
      createPeerConnection_fields createPeerConnection_some createPeerConnection_fresh
      log_fields agent_zzz_fields option.map_comp comp_def)

section \<open>The claims\<close>

subsection \<open>Role arbitration (C1)\<close>

text \<open>
  C1. Two agents with distinct client ids each handle the other's presence signal: exactly
  one of them ends as INITIATOR and the other one as RESPONDER, whatever their states and
  their browsers are. The decision is the comparison \<^verbatim>\<open>this.clientId > sender\<close> on the code
  units of the two strings, a function of the two ids alone.
\<close>

theorem role_arbitration:
  assumes "clientId a \<noteq> clientId b"
    and "property sa ''type'' = String (utf16 ''presence'')"
    and "property sa ''sender'' = String (clientId b)"
    and "property sb ''type'' = String (utf16 ''presence'')"
    and "property sb ''sender'' = String (clientId a)"
  shows "(role_of (fst (handleSignal Ba a sa)) = INITIATOR
            \<and> role_of (fst (handleSignal Bb b sb)) = RESPONDER)
         \<or> (role_of (fst (handleSignal Ba a sa)) = RESPONDER
            \<and> role_of (fst (handleSignal Bb b sb)) = INITIATOR)"
  using assms js_string_lt_total [of "clientId a" "clientId b"]
  by (simp add: presence_isInitiator role_of_def)

theorem role_arbitration_witness:
  "clientId agent_zzz \<noteq> clientId agent_aaa
   \<and> ((role_of (fst (handleSignal browser0 agent_zzz
                      (envelope (clientId agent_aaa) ''presence'' (Object [])))) = INITIATOR
        \<and> role_of (fst (handleSignal browser0 agent_aaa
                      (envelope (clientId agent_zzz) ''presence'' (Object [])))) = RESPONDER)
      \<or> (role_of (fst (handleSignal browser0 agent_zzz
                      (envelope (clientId agent_aaa) ''presence'' (Object [])))) = RESPONDER
        \<and> role_of (fst (handleSignal browser0 agent_aaa
                      (envelope (clientId agent_zzz) ''presence'' (Object [])))) = INITIATOR))"
proof -
  have ne: "clientId agent_zzz \<noteq> clientId agent_aaa"
    by (simp add: agent_zzz_fields agent_aaa_fields utf16_eq_iff)
  show ?thesis
    using ne role_arbitration [where a = agent_zzz and b = agent_aaa
        and Ba = browser0 and Bb = browser0
        and sa = "envelope (clientId agent_aaa) ''presence'' (Object [])"
        and sb = "envelope (clientId agent_zzz) ''presence'' (Object [])"]
    by (simp add: property_envelope)
qed

subsection \<open>Candidates before the remote description (C2)\<close>

text \<open>
  C2 as stated fails. The agent \<^verbatim>\<open>"aaa"\<close> has no peer connection when a candidate signal
  arrives, and then handles an offer: the remote description is applied and no candidate
  has been added to the connection. The class has no \<^verbatim>\<open>pendingCandidates\<close>.
\<close>

theorem candidate_lost_counterexample:
  "applied_candidates
     (run browser0 agent_aaa
        [Message (Parsed (envelope (utf16 ''zzz'') ''candidate'' ice0)),
         Message (Parsed (envelope (utf16 ''zzz'') ''offer'' sdp_offer))]) = []
   \<and> map_option calls
       (pc (run browser0 agent_aaa
              [Message (Parsed (envelope (utf16 ''zzz'') ''candidate'' ice0)),
               Message (Parsed (envelope (utf16 ''zzz'') ''offer'' sdp_offer))]))
     = Some [AddTrack 2, AddTrack 3, SetRemoteDescription sdp_offer, CreateAnswer sdp_answer,
             SetLocalDescription sdp_answer]"
proof -
  have ne: "utf16 ''zzz'' \<noteq> clientId agent_aaa"
    by (simp add: agent_aaa_fields utf16_eq_iff)
  have r: "run browser0 agent_aaa
        [Message (Parsed (envelope (utf16 ''zzz'') ''candidate'' ice0)),
         Message (Parsed (envelope (utf16 ''zzz'') ''offer'' sdp_offer))]
      = sendSignal ''answer'' sdp_answer
         (record_call (SetLocalDescription sdp_answer)
           (record_call (CreateAnswer sdp_answer)
             (record_call (SetRemoteDescription sdp_offer) (createPeerConnection agent_aaa))))"
    by (simp add: on_message_other_sender [OF ne] handleSignal_candidate handleSignal_offer
        agent_aaa_fields handleOffer_accepted [where ans = sdp_answer] browser0_accepts)
  show ?thesis
    unfolding r
    by (simp add: applied_candidates_sendSignal applied_candidates_record_call
        applied_candidates_createPeerConnection sendSignal_fields record_call_fields
        createPeerConnection_fresh agent_aaa_fields option.map_comp comp_def)
      (simp add: applied_candidates_def agent_aaa_fields)
qed

text \<open>
  C2, amended. A candidate signal from another sender is never buffered. Without a peer
  connection it is dropped and the agent is unchanged. With a peer connection it is handed
  to \<^verbatim>\<open>addIceCandidate\<close> at once, whether or not a remote description has been applied,
  and it is the last candidate added when the browser accepts it. Handling an offer or an
  answer adds no candidate.
\<close>

theorem candidate_immediate_or_dropped:
  assumes "property p ''type'' = String (utf16 ''candidate'')"
    and "property p ''sender'' \<noteq> String (clientId a)"
  shows "(pc a = None \<longrightarrow> on_message B a (Parsed p) = (a, Returned))
    \<and> (\<forall>q. pc a = Some q \<longrightarrow> addIceCandidate B (calls q) (property p ''data'') = None
          \<longrightarrow> snd (on_message B a (Parsed p)) = Returned
            \<and> applied_candidates (fst (on_message B a (Parsed p)))
                = applied_candidates a @ [property p ''data''])
    \<and> (\<forall>q e. pc a = Some q \<longrightarrow> addIceCandidate B (calls q) (property p ''data'') = Some e
          \<longrightarrow> on_message B a (Parsed p) = (a, Rejected e))
    \<and> applied_candidates (fst (handleOffer B a d)) = applied_candidates a
    \<and> applied_candidates (fst (handleAnswer B a d)) = applied_candidates a"
  using assms
  by (simp add: on_message_dispatch handleSignal_candidate_gen applied_candidates_record_call
      applied_candidates_handleOffer applied_candidates_handleAnswer)

theorem candidate_immediate_or_dropped_witness:
  "property (envelope (utf16 ''zzz'') ''candidate'' ice0) ''type'' = String (utf16 ''candidate'')
   \<and> property (envelope (utf16 ''zzz'') ''candidate'' ice0) ''sender'' \<noteq> String (clientId agent_aaa)
   \<and> pc agent_aaa = None
   \<and> on_message browser0 agent_aaa (Parsed (envelope (utf16 ''zzz'') ''candidate'' ice0))
       = (agent_aaa, Returned)
   \<and> pc (createPeerConnection agent_aaa) \<noteq> None
   \<and> applied_candidates
        (fst (on_message browser0 (createPeerConnection agent_aaa)
                (Parsed (envelope (utf16 ''zzz'') ''candidate'' ice0))))
       = applied_candidates (createPeerConnection agent_aaa) @ [ice0]"
  using candidate_immediate_or_dropped [where a = agent_aaa and B = browser0
      and p = "envelope (utf16 ''zzz'') ''candidate'' ice0"]
    candidate_immediate_or_dropped [where a = "createPeerConnection agent_aaa" and B = browser0
      and p = "envelope (utf16 ''zzz'') ''candidate'' ice0"]
    createPeerConnection_some [of agent_aaa]
  by (auto simp add: property_envelope agent_aaa_fields utf16_eq_iff browser0_accepts
      createPeerConnection_fields)

subsection \<open>A second presence (C3)\<close>

text \<open>
  C3 as stated fails. The agent \<^verbatim>\<open>"zzz"\<close> has handled the presence of \<^verbatim>\<open>"aaa"\<close>: it is the
  initiator and has published one offer. The same presence delivered again makes it
  create, set and publish a second offer on the same connection.
\<close>

theorem duplicate_presence_counterexample:
  "role_of initiator_zzz = INITIATOR
   \<and> published_of ''offer'' initiator_zzz = [envelope (utf16 ''zzz'') ''offer'' sdp_offer]
   \<and> published_of ''offer''
        (fst (on_message browser0 initiator_zzz
                (Parsed (envelope (utf16 ''aaa'') ''presence'' (Object [])))))
       = [envelope (utf16 ''zzz'') ''offer'' sdp_offer, envelope (utf16 ''zzz'') ''offer'' sdp_offer]
   \<and> map_option calls
        (pc (fst (on_message browser0 initiator_zzz
                (Parsed (envelope (utf16 ''aaa'') ''presence'' (Object []))))))
       = Some [CreateDataChannel (utf16 ''chat''), AddTrack 0, AddTrack 1, CreateOffer sdp_offer,
               SetLocalDescription sdp_offer, CreateOffer sdp_offer, SetLocalDescription sdp_offer]"
proof -
  have ne: "utf16 ''aaa'' \<noteq> clientId initiator_zzz"
    by (simp add: initiator_zzz_fields utf16_eq_iff)
  have again: "fst (on_message browser0 initiator_zzz
                (Parsed (envelope (utf16 ''aaa'') ''presence'' (Object []))))
     = updateStatus ''connecting'' ''Calling...''
       (sendSignal ''offer'' sdp_offer
          (record_call (SetLocalDescription sdp_offer)
             (record_call (CreateOffer sdp_offer)
                (createPeerConnection
                   ((log LogInitiator (log (LogPresence (utf16 ''aaa'') (utf16 ''zzz'')) initiator_zzz))
                      \<lparr>isInitiator := True\<rparr>)))))"
    by (simp add: on_message_other_sender [OF ne] handleSignal_presence
        initiator_zzz_fields aaa_lt_zzz startCall_accepted [where off = sdp_offer] browser0_accepts)
  have same: "createPeerConnection
                   ((log LogInitiator (log (LogPresence (utf16 ''aaa'') (utf16 ''zzz'')) initiator_zzz))
                      \<lparr>isInitiator := True\<rparr>)
      = (log LogInitiator (log (LogPresence (utf16 ''aaa'') (utf16 ''zzz'')) initiator_zzz))
                      \<lparr>isInitiator := True\<rparr>"
    by (rule createPeerConnection_noop) (simp add: log_fields initiator_zzz_fields)
  show ?thesis
    unfolding again same
    by (simp add: role_of_def published_of_envelopes initiator_zzz_fields updateStatus_fields
        sendSignal_fields record_call_fields log_fields property_envelope utf16_eq_iff
        calls_appended)
qed

text \<open>
  C3, amended. A presence signal from another sender is handled the same way at every
  delivery. When the agent's id is not greater than the sender's, only the console and the
  flag \<^verbatim>\<open>isInitiator\<close> (set to \<^verbatim>\<open>false\<close>) change: nothing is published and the connection
  is untouched. When it is greater, \<^verbatim>\<open>startCall\<close> runs again: on an existing connection,
  whenever the browser creates an offer and accepts it as local description, one more offer
  is published and the same connection has the two operations appended.
\<close>

theorem presence_every_time:
  assumes "property p ''type'' = String (utf16 ''presence'')"
    and "property p ''sender'' = String s"
    and "s \<noteq> clientId a"
  shows "(\<not> js_string_lt s (clientId a) \<longrightarrow>
            on_message B a (Parsed p)
              = ((log LogReceiver (log (LogPresence s (clientId a)) a))\<lparr>isInitiator := False\<rparr>,
                 Returned))
    \<and> (js_string_lt s (clientId a) \<longrightarrow>
            on_message B a (Parsed p)
              = startCall B
                  ((log LogInitiator (log (LogPresence s (clientId a)) a))\<lparr>isInitiator := True\<rparr>))
    \<and> (\<forall>q off. js_string_lt s (clientId a) \<longrightarrow> pc a = Some q
          \<longrightarrow> createOffer B (calls q) = Inr off
          \<longrightarrow> setLocalDescription B (calls q @ [CreateOffer off]) off = None
          \<longrightarrow> published (fst (on_message B a (Parsed p)))
                = published a @ [(signalTopic a, envelope (clientId a) ''offer'' off)]
            \<and> pc (fst (on_message B a (Parsed p)))
                = Some (q\<lparr>calls := calls q @ [CreateOffer off, SetLocalDescription off]\<rparr>))"
proof -
  have d: "on_message B a (Parsed p) = handleSignal B a p"
    using assms by (simp add: on_message_dispatch)
  have h: "handleSignal B a p =
     (if js_string_lt s (clientId a)
      then startCall B ((log LogInitiator (log (LogPresence s (clientId a)) a))\<lparr>isInitiator := True\<rparr>)
      else ((log LogReceiver (log (LogPresence s (clientId a)) a))\<lparr>isInitiator := False\<rparr>,
            Returned))"
    using assms by (simp add: handleSignal_def Let_def template_def js_gt_def)
  have again: "published (fst (startCall B a'))
                 = published a @ [(signalTopic a, envelope (clientId a) ''offer'' off)]
               \<and> pc (fst (startCall B a'))
                 = Some (q\<lparr>calls := calls q @ [CreateOffer off, SetLocalDescription off]\<rparr>)"
    if "a' = (log LogInitiator (log (LogPresence s (clientId a)) a))\<lparr>isInitiator := True\<rparr>"
      and "pc a = Some q" and "createOffer B (calls q) = Inr off"
      and "setLocalDescription B (calls q @ [CreateOffer off]) off = None"
    for a' q off
  proof -
    have f: "pc a' = Some q" "published a' = published a" "clientId a' = clientId a"
      "roomId a' = roomId a"
      using that(1,2) by (simp_all add: log_fields)
    have same: "createPeerConnection a' = a'"
      using f(1) by (simp add: createPeerConnection_noop)
    have "startCall B a' =
      (updateStatus ''connecting'' ''Calling...''
         (sendSignal ''offer'' off
            (record_call (SetLocalDescription off) (record_call (CreateOffer off) a'))), Returned)"
      using that(3,4) f(1) startCall_accepted [where B = B and a = a' and off = off]
      by (simp add: same)
    then show ?thesis
      by (simp add: updateStatus_fields sendSignal_fields record_call_fields f signalTopic_def)
  qed
  show ?thesis
    unfolding d h using again by simp
qed

theorem presence_every_time_witness:
  "property (envelope (utf16 ''zzz'') ''presence'' (Object [])) ''type'' = String (utf16 ''presence'')
   \<and> property (envelope (utf16 ''zzz'') ''presence'' (Object [])) ''sender'' = String (utf16 ''zzz'')
   \<and> utf16 ''zzz'' \<noteq> clientId agent_aaa
   \<and> \<not> js_string_lt (utf16 ''zzz'') (clientId agent_aaa)
   \<and> on_message browser0 agent_aaa (Parsed (envelope (utf16 ''zzz'') ''presence'' (Object [])))
       = ((log LogReceiver (log (LogPresence (utf16 ''zzz'') (clientId agent_aaa)) agent_aaa))
            \<lparr>isInitiator := False\<rparr>, Returned)
   \<and> utf16 ''aaa'' \<noteq> clientId initiator_zzz
   \<and> js_string_lt (utf16 ''aaa'') (clientId initiator_zzz)
   \<and> pc initiator_zzz \<noteq> None
   \<and> published (fst (on_message browser0 initiator_zzz
                        (Parsed (envelope (utf16 ''aaa'') ''presence'' (Object [])))))
       = published initiator_zzz
         @ [(signalTopic initiator_zzz, envelope (clientId initiator_zzz) ''offer'' sdp_offer)]"
proof -
  obtain q where q: "pc initiator_zzz = Some q"
    using initiator_zzz_fields(4) by auto
  have acc: "createOffer browser0 (calls q) = Inr sdp_offer"
    "setLocalDescription browser0 (calls q @ [CreateOffer sdp_offer]) sdp_offer = None"
    by (simp_all add: browser0_accepts)
  have r: "\<not> js_string_lt (utf16 ''zzz'') (clientId agent_aaa)"
    and i: "js_string_lt (utf16 ''aaa'') (clientId initiator_zzz)"
    by (simp_all add: agent_aaa_fields initiator_zzz_fields aaa_lt_zzz)
  have n: "utf16 ''zzz'' \<noteq> clientId agent_aaa" "utf16 ''aaa'' \<noteq> clientId initiator_zzz"
    by (simp_all add: agent_aaa_fields initiator_zzz_fields utf16_eq_iff)
  note ta = presence_every_time [where a = agent_aaa and B = browser0 and s = "utf16 ''zzz''"
      and p = "envelope (utf16 ''zzz'') ''presence'' (Object [])",
      OF property_envelope(2) property_envelope(1) n(1)]
  note tz = presence_every_time [where a = initiator_zzz and B = browser0 and s = "utf16 ''aaa''"
      and p = "envelope (utf16 ''aaa'') ''presence'' (Object [])",
      OF property_envelope(2) property_envelope(1) n(2)]
  have c1: "on_message browser0 agent_aaa (Parsed (envelope (utf16 ''zzz'') ''presence'' (Object [])))
       = ((log LogReceiver (log (LogPresence (utf16 ''zzz'') (clientId agent_aaa)) agent_aaa))
            \<lparr>isInitiator := False\<rparr>, Returned)"
    using ta r by blast
  have c2: "published (fst (on_message browser0 initiator_zzz
                        (Parsed (envelope (utf16 ''aaa'') ''presence'' (Object [])))))
       = published initiator_zzz
         @ [(signalTopic initiator_zzz, envelope (clientId initiator_zzz) ''offer'' sdp_offer)]"
    using tz i q acc by blast
  have c0: "pc initiator_zzz \<noteq> None"
    using q by simp
  show ?thesis
    using r i n c0 c1 c2 by (simp only: property_envelope simp_thms)
qed

subsection \<open>Self-echo (C4)\<close>

text \<open>
  C4. A delivered payload whose \<^verbatim>\<open>sender\<close> is the agent's own client id is dropped by the
  message callback before \<^verbatim>\<open>handleSignal\<close>: the callback returns and no field of the
  agent changes, whatever the payload's type and data are.
\<close>

theorem self_echo_discarded:
  assumes "property payload ''sender'' = String (clientId a)"
  shows "on_message B a (Parsed payload) = (a, Returned)"
  using assms by (rule on_message_own_sender)

theorem self_echo_discarded_witness:
  "property (envelope (clientId agent_zzz) ''offer'' sdp_offer) ''sender'' = String (clientId agent_zzz)
   \<and> on_message browser0 agent_zzz (Parsed (envelope (clientId agent_zzz) ''offer'' sdp_offer))
       = (agent_zzz, Returned)"
  using self_echo_discarded [where a = agent_zzz and B = browser0
      and payload = "envelope (clientId agent_zzz) ''offer'' sdp_offer"]
  by (simp add: property_envelope)

subsection \<open>The two-party scenario (C5)\<close>

text \<open>
  C5. Agent A (id \<^verbatim>\<open>"zzz"\<close>) and agent B (id \<^verbatim>\<open>"aaa"\<close>) connect and publish their presence;
  each presence, then the offer, then the answer is delivered, every payload also
  returning to its publisher; then both connections report \<^verbatim>\<open>connected\<close>. When A's
  browser creates the offer and accepts the descriptions, and B's browser creates the answer
  and accepts the descriptions: A is INITIATOR and B is RESPONDER; A has published its
  presence and the offer, B its presence and the answer; B has applied the offer and A the
  answer; both show the status \<^verbatim>\<open>online\<close>, \<^verbatim>\<open>Connected\<close>, and each console has the
  line of the role taken.
\<close>

theorem two_party_handshake:
  assumes oA: "\<And>cs. createOffer BA cs = Inr offer"
    and lA: "\<And>cs d. setLocalDescription BA cs d = None"
    and rA: "\<And>cs d. setRemoteDescription BA cs d = None"
    and aB: "\<And>cs. createAnswer BB cs = Inr answer"
    and lB: "\<And>cs d. setLocalDescription BB cs d = None"
    and rB: "\<And>cs d. setRemoteDescription BB cs d = None"
  shows "role_of (agentA (handshake_result BA BB room ta tb)) = INITIATOR
    \<and> role_of (agentB (handshake_result BA BB room ta tb)) = RESPONDER
    \<and> map snd (published (agentA (handshake_result BA BB room ta tb)))
        = [envelope (utf16 ''zzz'') ''presence'' (Object []), envelope (utf16 ''zzz'') ''offer'' offer]
    \<and> map snd (published (agentB (handshake_result BA BB room ta tb)))
        = [envelope (utf16 ''aaa'') ''presence'' (Object []), envelope (utf16 ''aaa'') ''answer'' answer]
    \<and> map_option calls (pc (agentA (handshake_result BA BB room ta tb)))
        = Some (CreateDataChannel (utf16 ''chat'') # map AddTrack ta
                @ [CreateOffer offer, SetLocalDescription offer, SetRemoteDescription answer])
    \<and> map_option calls (pc (agentB (handshake_result BA BB room ta tb)))
        = Some (map AddTrack tb
                @ [SetRemoteDescription offer, CreateAnswer answer, SetLocalDescription answer])
    \<and> status (agentA (handshake_result BA BB room ta tb)) = (''online'', ''Connected'')
    \<and> status (agentB (handshake_result BA BB room ta tb)) = (''online'', ''Connected'')
    \<and> console (agentA (handshake_result BA BB room ta tb))
        = [LogConnected (utf16 ''zzz''), LogPresence (utf16 ''aaa'') (utf16 ''zzz''), LogInitiator,
           LogConnectionState Connected]
    \<and> console (agentB (handshake_result BA BB room ta tb))
        = [LogConnected (utf16 ''aaa''), LogPresence (utf16 ''zzz'') (utf16 ''aaa''), LogReceiver,
           LogConnectionState Connected]"
proof -
  note startA = startCall_accepted [where B = BA and off = offer, OF oA lA]
  note offerB = handleOffer_accepted [where B = BB and ans = answer, OF rB aB lB]
  note answerA = handleAnswer_accepted [where B = BA, OF _ rA]
  have run: "handshake_result BA BB room ta tb =
    \<lparr>agentA =
       on_connectionstatechange
        (record_call (SetRemoteDescription answer)
          (updateStatus ''connecting'' ''Calling...''
            (sendSignal ''offer'' offer
              (record_call (SetLocalDescription offer)
                (record_call (CreateOffer offer)
                  (createPeerConnection
                    ((log LogInitiator
                       (log (LogPresence (utf16 ''aaa'') (utf16 ''zzz''))
                         (on_connect (initial (utf16 ''zzz'') room ta))))
                     \<lparr>isInitiator := True\<rparr>)))))))
        Connected,
     agentB =
       on_connectionstatechange
        (sendSignal ''answer'' answer
          (record_call (SetLocalDescription answer)
            (record_call (CreateAnswer answer)
              (record_call (SetRemoteDescription offer)
                (createPeerConnection
                  ((log LogReceiver
                     (log (LogPresence (utf16 ''zzz'') (utf16 ''aaa''))
                       (on_connect (initial (utf16 ''aaa'') room tb))))
                   \<lparr>isInitiator := False\<rparr>))))))
        Connected\<rparr>"
    by (simp add: handshake_result_def handshake_def agent_of_def set_agent_def browser_of_def
      Let_def on_connect_fields initial_fields sendSignal_fields updateStatus_fields log_fields
      record_call_fields createPeerConnection_fields on_connectionstatechange_fields
      on_message_own_sender on_message_other_sender property_envelope handleSignal_presence
      handleSignal_offer handleSignal_answer startA offerB answerA aaa_lt_zzz utf16_eq_iff
      createPeerConnection_some signalTopic_def)
  show ?thesis
    unfolding run
    by (simp add: role_of_def on_connect_fields initial_fields sendSignal_fields
      updateStatus_fields log_fields record_call_fields createPeerConnection_fields
      on_connectionstatechange_fields createPeerConnection_fresh
      on_connectionstatechange_connected on_connectionstatechange_console
      option.map_comp comp_def)
qed

theorem two_party_handshake_witness:
  "(\<forall>cs. createOffer browser0 cs = Inr sdp_offer)
   \<and> (\<forall>cs d. setLocalDescription browser0 cs d = None)
   \<and> (\<forall>cs d. setRemoteDescription browser0 cs d = None)
   \<and> (\<forall>cs. createAnswer browser0 cs = Inr sdp_answer)
   \<and> role_of (agentA (handshake_result browser0 browser0 (utf16 ''room1'') [0, 1] [2, 3])) = INITIATOR
   \<and> role_of (agentB (handshake_result browser0 browser0 (utf16 ''room1'') [0, 1] [2, 3])) = RESPONDER
   \<and> map snd (published (agentA (handshake_result browser0 browser0 (utf16 ''room1'') [0, 1] [2, 3])))
       = [envelope (utf16 ''zzz'') ''presence'' (Object []),
          envelope (utf16 ''zzz'') ''offer'' sdp_offer]
   \<and> map snd (published (agentB (handshake_result browser0 browser0 (utf16 ''room1'') [0, 1] [2, 3])))
       = [envelope (utf16 ''aaa'') ''presence'' (Object []),
          envelope (utf16 ''aaa'') ''answer'' sdp_answer]
   \<and> status (agentA (handshake_result browser0 browser0 (utf16 ''room1'') [0, 1] [2, 3]))
       = (''online'', ''Connected'')
   \<and> status (agentB (handshake_result browser0 browser0 (utf16 ''room1'') [0, 1] [2, 3]))
       = (''online'', ''Connected'')"
  using two_party_handshake [where BA = browser0 and BB = browser0 and offer = sdp_offer
      and answer = sdp_answer and room = "utf16 ''room1''" and ta = "[0, 1]" and tb = "[2, 3]",
      OF browser0_accepts(1) browser0_accepts(3) browser0_accepts(4) browser0_accepts(2)
         browser0_accepts(3) browser0_accepts(4)]
  by (simp only: browser0_accepts simp_thms)

subsection \<open>Identity collision (C6)\<close>

text \<open>
  C6 as stated fails. A presence signal whose sender is the agent's own id raises no
  error: the message callback returns with the agent unchanged, and \<^verbatim>\<open>handleSignal\<close>
  given the same signal returns with the agent as RESPONDER.
\<close>

theorem identity_collision_counterexample:
  "on_message browser0 agent_zzz (Parsed (envelope (utf16 ''zzz'') ''presence'' (Object [])))
     = (agent_zzz, Returned)
   \<and> snd (handleSignal browser0 agent_zzz (envelope (utf16 ''zzz'') ''presence'' (Object [])))
     = Returned
   \<and> role_of (fst (handleSignal browser0 agent_zzz
                      (envelope (utf16 ''zzz'') ''presence'' (Object [])))) = RESPONDER"
  by (simp add: on_message_own_sender property_envelope agent_zzz_fields handleSignal_presence
      js_string_lt_irrefl role_of_def)

text \<open>
  C6, amended. When the sender of a presence signal equals the agent's client id, no
  error is raised: the message callback drops the signal as its own echo and the agent is
  unchanged; \<^verbatim>\<open>handleSignal\<close> itself takes the receiver branch, which only writes two
  console lines and sets \<^verbatim>\<open>isInitiator\<close> to \<^verbatim>\<open>false\<close>.
\<close>

theorem identity_collision_ignored:
  assumes "property p ''type'' = String (utf16 ''presence'')"
    and "property p ''sender'' = String (clientId a)"
  shows "on_message B a (Parsed p) = (a, Returned)
    \<and> handleSignal B a p
        = ((log LogReceiver (log (LogPresence (clientId a) (clientId a)) a))\<lparr>isInitiator := False\<rparr>,
           Returned)"
  using assms
  by (simp add: on_message_own_sender handleSignal_def Let_def template_def js_gt_def
      js_string_lt_irrefl)

theorem identity_collision_ignored_witness:
  "property (envelope (utf16 ''zzz'') ''presence'' (Object [])) ''type'' = String (utf16 ''presence'')
   \<and> property (envelope (utf16 ''zzz'') ''presence'' (Object [])) ''sender''
       = String (clientId agent_zzz)
   \<and> on_message browser0 agent_zzz (Parsed (envelope (utf16 ''zzz'') ''presence'' (Object [])))
       = (agent_zzz, Returned)
   \<and> handleSignal browser0 agent_zzz (envelope (utf16 ''zzz'') ''presence'' (Object []))
       = ((log LogReceiver (log (LogPresence (clientId agent_zzz) (clientId agent_zzz)) agent_zzz))
            \<lparr>isInitiator := False\<rparr>, Returned)"
  using identity_collision_ignored [where a = agent_zzz and B = browser0
      and p = "envelope (utf16 ''zzz'') ''presence'' (Object [])"]
  by (simp add: property_envelope agent_zzz_fields)

subsection \<open>Errors of one envelope (C7)\<close>

text \<open>
  C7 as stated fails. On a body that is not JSON, \<^verbatim>\<open>JSON.parse\<close> throws and nothing
  catches the \<^verbatim>\<open>SyntaxError\<close>: it leaves the message callback, and no console line is
  written.
\<close>

theorem malformed_json_counterexample:
  "on_message browser0 agent_zzz Malformed = (agent_zzz, Threw SyntaxError)"
  by (simp add: on_message_def)

text \<open>
  C7, amended. A body that is not JSON makes the message callback throw a
  \<^verbatim>\<open>SyntaxError\<close>, and the body \<^verbatim>\<open>null\<close> a \<^verbatim>\<open>TypeError\<close>; the agent is unchanged and
  nothing is logged. Any other parsed value whose \<^verbatim>\<open>type\<close> is none of the four case labels
  is ignored: the callback returns and the agent, its console included, is unchanged.
\<close>

theorem envelope_errors:
  "on_message B a Malformed = (a, Threw SyntaxError)
   \<and> on_message B a (Parsed Null) = (a, Threw TypeError)
   \<and> (p \<noteq> Null \<longrightarrow> p \<noteq> Undefined
        \<longrightarrow> property p ''type'' \<notin> set (map (\<lambda>t. String (utf16 t)) known_types)
        \<longrightarrow> on_message B a (Parsed p) = (a, Returned))"
  by (simp add: on_message_def handleSignal_def Let_def known_types_def)

theorem envelope_errors_witness:
  "envelope (utf16 ''aaa'') ''bye'' Null \<noteq> Null
   \<and> envelope (utf16 ''aaa'') ''bye'' Null \<noteq> Undefined
   \<and> property (envelope (utf16 ''aaa'') ''bye'' Null) ''type''
        \<notin> set (map (\<lambda>t. String (utf16 t)) known_types)
   \<and> on_message browser0 agent_zzz Malformed = (agent_zzz, Threw SyntaxError)
   \<and> on_message browser0 agent_zzz (Parsed Null) = (agent_zzz, Threw TypeError)
   \<and> on_message browser0 agent_zzz (Parsed (envelope (utf16 ''aaa'') ''bye'' Null))
        = (agent_zzz, Returned)"
  using envelope_errors [where a = agent_zzz and B = browser0
      and p = "envelope (utf16 ''aaa'') ''bye'' Null"]
  by (simp add: property_envelope known_types_def utf16_eq_iff) (simp add: envelope_def)

subsection \<open>An offer to the initiator (C8)\<close>

text \<open>
  C8 as stated fails. The agent \<^verbatim>\<open>"zzz"\<close> is the initiator and has published its offer.
  An offer from \<^verbatim>\<open>"aaa"\<close> is not discarded: it is applied as remote description, an answer
  is created, set and published, and no console line is written.
\<close>

theorem glare_offer_counterexample:
  "role_of initiator_zzz = INITIATOR
   \<and> published_of ''offer'' initiator_zzz = [envelope (utf16 ''zzz'') ''offer'' sdp_offer]
   \<and> published_of ''answer''
        (fst (on_message browser0 initiator_zzz
                (Parsed (envelope (utf16 ''aaa'') ''offer'' sdp_offer_aaa))))
       = [envelope (utf16 ''zzz'') ''answer'' sdp_answer]
   \<and> map_option calls
        (pc (fst (on_message browser0 initiator_zzz
                (Parsed (envelope (utf16 ''aaa'') ''offer'' sdp_offer_aaa)))))
       = Some [CreateDataChannel (utf16 ''chat''), AddTrack 0, AddTrack 1, CreateOffer sdp_offer,
               SetLocalDescription sdp_offer, SetRemoteDescription sdp_offer_aaa,
               CreateAnswer sdp_answer, SetLocalDescription sdp_answer]
   \<and> console (fst (on_message browser0 initiator_zzz
                (Parsed (envelope (utf16 ''aaa'') ''offer'' sdp_offer_aaa))))
       = console initiator_zzz"
proof -
  have ne: "utf16 ''aaa'' \<noteq> clientId initiator_zzz"
    by (simp add: initiator_zzz_fields utf16_eq_iff)
  have same: "createPeerConnection initiator_zzz = initiator_zzz"
    by (rule createPeerConnection_noop) (simp add: initiator_zzz_fields)
  have r: "fst (on_message browser0 initiator_zzz
                (Parsed (envelope (utf16 ''aaa'') ''offer'' sdp_offer_aaa)))
     = sendSignal ''answer'' sdp_answer
         (record_call (SetLocalDescription sdp_answer)
           (record_call (CreateAnswer sdp_answer)
             (record_call (SetRemoteDescription sdp_offer_aaa) initiator_zzz)))"
    by (simp add: on_message_other_sender [OF ne] handleSignal_offer
        handleOffer_accepted [where ans = sdp_answer] browser0_accepts same)
  show ?thesis
    unfolding r
    by (simp add: role_of_def published_of_envelopes initiator_zzz_fields
        sendSignal_fields record_call_fields property_envelope utf16_eq_iff calls_appended)
qed

text \<open>
  C8, amended. An offer from another sender to an agent that has a peer connection,
  initiator or not, is passed to \<^verbatim>\<open>handleOffer\<close>. The message callback does not throw,
  the connection is kept and nothing is logged. The offer is not discarded: when the
  browser accepts it as remote description, creates an answer and accepts that as local
  description, the three operations are appended to the connection and the answer is
  published.
\<close>

theorem offer_applied_in_any_phase:
  assumes "property p ''type'' = String (utf16 ''offer'')"
    and "property p ''sender'' \<noteq> String (clientId a)"
    and "pc a = Some q"
  shows "on_message B a (Parsed p) = handleOffer B a (property p ''data'')
    \<and> (\<forall>e. snd (on_message B a (Parsed p)) \<noteq> Threw e)
    \<and> pc (fst (on_message B a (Parsed p))) \<noteq> None
    \<and> console (fst (on_message B a (Parsed p))) = console a
    \<and> (\<forall>ans. setRemoteDescription B (calls q) (property p ''data'') = None
          \<longrightarrow> createAnswer B (calls q @ [SetRemoteDescription (property p ''data'')]) = Inr ans
          \<longrightarrow> setLocalDescription B
                (calls q @ [SetRemoteDescription (property p ''data''), CreateAnswer ans]) ans = None
          \<longrightarrow> on_message B a (Parsed p)
                = (sendSignal ''answer'' ans
                     (a\<lparr>pc := Some (q\<lparr>calls := calls q @ [SetRemoteDescription (property p ''data''),
                                                         CreateAnswer ans,
                                                         SetLocalDescription ans]\<rparr>)\<rparr>),
                   Returned))"
proof -
  have d: "on_message B a (Parsed p) = handleOffer B a (property p ''data'')"
    using assms by (simp add: on_message_dispatch handleSignal_offer_gen)
  have same: "createPeerConnection a = a"
    using assms(3) by (simp add: createPeerConnection_noop)
  have acc: "handleOffer B a (property p ''data'')
                = (sendSignal ''answer'' ans
                     (a\<lparr>pc := Some (q\<lparr>calls := calls q @ [SetRemoteDescription (property p ''data''),
                                                         CreateAnswer ans,
                                                         SetLocalDescription ans]\<rparr>)\<rparr>),
                   Returned)"
    if "setRemoteDescription B (calls q) (property p ''data'') = None"
      and "createAnswer B (calls q @ [SetRemoteDescription (property p ''data'')]) = Inr ans"
      and "setLocalDescription B
                (calls q @ [SetRemoteDescription (property p ''data''), CreateAnswer ans]) ans = None"
    for ans
    using that assms(3)
    by (simp add: handleOffer_def Let_def same record_call_def)
  show ?thesis
    unfolding d using acc
    by (simp add: handleOffer_never_throws handleOffer_keeps)
qed

theorem offer_applied_in_any_phase_witness:
  "property (envelope (utf16 ''aaa'') ''offer'' sdp_offer_aaa) ''type'' = String (utf16 ''offer'')
   \<and> property (envelope (utf16 ''aaa'') ''offer'' sdp_offer_aaa) ''sender''
        \<noteq> String (clientId initiator_zzz)
   \<and> pc initiator_zzz \<noteq> None
   \<and> isInitiator initiator_zzz
   \<and> published (fst (on_message browser0 initiator_zzz
                        (Parsed (envelope (utf16 ''aaa'') ''offer'' sdp_offer_aaa))))
       = published initiator_zzz
         @ [(signalTopic initiator_zzz, envelope (clientId initiator_zzz) ''answer'' sdp_answer)]
   \<and> console (fst (on_message browser0 initiator_zzz
                        (Parsed (envelope (utf16 ''aaa'') ''offer'' sdp_offer_aaa))))
       = console initiator_zzz"
proof -
  obtain q where q: "pc initiator_zzz = Some q"
    using initiator_zzz_fields(4) by auto
  have h: "property (envelope (utf16 ''aaa'') ''offer'' sdp_offer_aaa) ''sender''
        \<noteq> String (clientId initiator_zzz)"
    by (simp add: property_envelope initiator_zzz_fields utf16_eq_iff)
  note t = offer_applied_in_any_phase [where a = initiator_zzz and B = browser0 and q = q
      and p = "envelope (utf16 ''aaa'') ''offer'' sdp_offer_aaa", OF property_envelope(2) h q]
  have acc: "setRemoteDescription browser0 (calls q)
        (property (envelope (utf16 ''aaa'') ''offer'' sdp_offer_aaa) ''data'') = None"
    "createAnswer browser0
       (calls q @ [SetRemoteDescription
                     (property (envelope (utf16 ''aaa'') ''offer'' sdp_offer_aaa) ''data'')])
       = Inr sdp_answer"
    "setLocalDescription browser0
       (calls q @ [SetRemoteDescription
                     (property (envelope (utf16 ''aaa'') ''offer'' sdp_offer_aaa) ''data''),
                   CreateAnswer sdp_answer]) sdp_answer = None"
    by (simp_all add: browser0_accepts)
  have c1: "console (fst (on_message browser0 initiator_zzz
                        (Parsed (envelope (utf16 ''aaa'') ''offer'' sdp_offer_aaa))))
       = console initiator_zzz"
    using t by blast
  have e: "on_message browser0 initiator_zzz (Parsed (envelope (utf16 ''aaa'') ''offer'' sdp_offer_aaa))
      = (sendSignal ''answer'' sdp_answer
           (initiator_zzz\<lparr>pc := Some (q\<lparr>calls := calls q
              @ [SetRemoteDescription (property (envelope (utf16 ''aaa'') ''offer'' sdp_offer_aaa) ''data''),
                 CreateAnswer sdp_answer, SetLocalDescription sdp_answer]\<rparr>)\<rparr>), Returned)"
    using t acc by blast
  have c2: "published (fst (on_message browser0 initiator_zzz
                        (Parsed (envelope (utf16 ''aaa'') ''offer'' sdp_offer_aaa))))
       = published initiator_zzz
         @ [(signalTopic initiator_zzz, envelope (clientId initiator_zzz) ''answer'' sdp_answer)]"
    unfolding e by (simp add: sendSignal_fields signalTopic_def)
  have c0: "pc initiator_zzz \<noteq> None"
    using q by simp
  show ?thesis
    using h c0 c1 c2 initiator_zzz_fields(2) by (simp only: property_envelope simp_thms)
qed

subsection \<open>An existing peer connection (C9)\<close>

text \<open>
  C9. When a peer connection exists, \<^verbatim>\<open>createPeerConnection\<close> changes nothing, in
  both revisions of the function: the connection with its handlers, the data channel and
  every other field stay as they were.
\<close>

theorem createPeerConnection_idempotent:
  assumes "pc a \<noteq> None"
  shows "createPeerConnection a = a \<and> createPeerConnection_v1 a = a"
  using assms by (simp add: createPeerConnection_def createPeerConnection_v1_def)

theorem createPeerConnection_idempotent_witness:
  "pc (createPeerConnection agent_zzz) \<noteq> None
   \<and> createPeerConnection (createPeerConnection agent_zzz) = createPeerConnection agent_zzz
   \<and> createPeerConnection_v1 (createPeerConnection agent_zzz) = createPeerConnection agent_zzz"
  using createPeerConnection_idempotent [where a = "createPeerConnection agent_zzz"]
  by (simp add: createPeerConnection_some)

subsection \<open>Outbound sender (C10)\<close>

text \<open>
  C10. \<^verbatim>\<open>sendSignal\<close>, for every type and data, appends one payload to those published,
  and its \<^verbatim>\<open>sender\<close> is the agent's client id; the earlier payloads and the client id
  are untouched. Nothing else publishes: after any sequence of events, every payload an
  agent has published names the agent as its sender.
\<close>

theorem sendSignal_sender:
  "map (\<lambda>tp. property (snd tp) ''sender'') (published (sendSignal ty d a))
     = map (\<lambda>tp. property (snd tp) ''sender'') (published a) @ [String (clientId a)]
   \<and> clientId (sendSignal ty d a) = clientId a
   \<and> own_sender (run B (initial c r ts) es)"
  by (simp add: sendSignal_fields property_envelope own_sender_run own_sender_initial)

end
